theory Spec2Isabelle
  imports Main "HOL-Library.Word"
begin

section \<open>Wire types and tags (upb_parse.h)\<close>

text \<open>
  \<^verbatim>\<open>typedef uint8_t upb_wire_type_t;\<close>  The enum \<^verbatim>\<open>upb_wire_type\<close> only names six of
  the 256 values of the type, and a tag carries three bits of wire type, so the values
  6 and 7 can reach the check: a wire type is an 8-bit word, not a six-element datatype.
\<close>

type_synonym upb_wire_type_t = "8 word"

definition UPB_WIRE_TYPE_VARINT :: upb_wire_type_t where
  "UPB_WIRE_TYPE_VARINT = 0"

definition UPB_WIRE_TYPE_64BIT :: upb_wire_type_t where
  "UPB_WIRE_TYPE_64BIT = 1"

definition UPB_WIRE_TYPE_DELIMITED :: upb_wire_type_t where
  "UPB_WIRE_TYPE_DELIMITED = 2"

definition UPB_WIRE_TYPE_START_GROUP :: upb_wire_type_t where
  "UPB_WIRE_TYPE_START_GROUP = 3"

definition UPB_WIRE_TYPE_END_GROUP :: upb_wire_type_t where
  "UPB_WIRE_TYPE_END_GROUP = 4"

definition UPB_WIRE_TYPE_32BIT :: upb_wire_type_t where
  "UPB_WIRE_TYPE_32BIT = 5"

lemmas upb_wire_type_defs =
  UPB_WIRE_TYPE_VARINT_def UPB_WIRE_TYPE_64BIT_def UPB_WIRE_TYPE_DELIMITED_def
  UPB_WIRE_TYPE_START_GROUP_def UPB_WIRE_TYPE_END_GROUP_def UPB_WIRE_TYPE_32BIT_def

section \<open>Declared field types and the type table\<close>

text \<open>
  \<^verbatim>\<open>upb_field_type_t\<close> is declared in upb.h, which is not among the sources; the
  check compares it with the literal 10 and indexes an array with it, so it is a small
  unsigned integer. The literal 10 is
  \<^verbatim>\<open>GOOGLE_PROTOBUF_FIELDDESCRIPTORPROTO_TYPE_GROUP\<close>, as the comment in the code says.
\<close>

type_synonym upb_field_type_t = "8 word"

definition TYPE_GROUP :: upb_field_type_t where
  "TYPE_GROUP = 10"

text \<open>
  One entry of \<^verbatim>\<open>upb_type_info[]\<close>. The check reads the member
  \<^verbatim>\<open>expected_wire_type\<close> only; the other members are not used by anything here.
\<close>

record upb_type_info_entry =
  expected_wire_type :: upb_wire_type_t

text \<open>
  The table itself is a parameter of the check: a partial map from the index to the
  entry, \<open>None\<close> where the index is outside the array (a read the C code leaves
  undefined).
\<close>

type_synonym upb_type_info_table = "upb_field_type_t \<rightharpoonup> upb_type_info_entry"

text \<open>
  \<^verbatim>\<open>
  INLINE bool upb_check_type(upb_wire_type_t wt, upb_field_type_t ft) {
    if(ft == 10) { // GOOGLE_PROTOBUF_FIELDDESCRIPTORPROTO_TYPE_GROUP)
      return wt == UPB_WIRE_TYPE_START_GROUP;
    } else {
      /* With packed arrays, anything can be delimited (except groups). */
      return wt == UPB_WIRE_TYPE_DELIMITED ||
             upb_type_info[ft].expected_wire_type == wt;
   }
  }
  \<close>
  The result is \<open>None\<close> exactly where the C code reads the table outside its
  bounds. The \<^verbatim>\<open>||\<close> short-circuits: with a DELIMITED wire type the table is not
  read at all.
\<close>

definition upb_check_type ::
  "upb_type_info_table \<Rightarrow> upb_wire_type_t \<Rightarrow> upb_field_type_t \<Rightarrow> bool option" where
  "upb_check_type upb_type_info wt ft =
     (if ft = 10 then Some (wt = UPB_WIRE_TYPE_START_GROUP)
      else if wt = UPB_WIRE_TYPE_DELIMITED then Some True
      else (case upb_type_info ft of
              None \<Rightarrow> None
            | Some e \<Rightarrow> Some (expected_wire_type e = wt)))"

text \<open>
  Modelled from the spec: \<^verbatim>\<open>struct _upb_fielddef\<close> is only forward-declared in the
  sources. The spec's field descriptor has a field number, a label
  (optional/required/repeated) and a declared type; these are the attributes the
  claims about the wire-type check speak of.
\<close>

datatype upb_label = LABEL_OPTIONAL | LABEL_REQUIRED | LABEL_REPEATED

record upb_fielddef =
  number :: "32 word"
  label :: upb_label
  ftype :: upb_field_type_t

text \<open>
  Modelled from the spec: the contents of \<^verbatim>\<open>upb_type_info[]\<close> (defined in upb.c, not
  among the sources). The index is the declared type in the numbering of
  descriptor.proto (1 = double, ..., 18 = sint64); the expected wire type is the one the
  spec's value decoding gives for each declared type: VARINT for int32, int64, uint32,
  uint64, bool, enum, sint32 and sint64; 64BIT and 32BIT for the fixed-width types,
  double and float; DELIMITED for string, bytes and message; START_GROUP for group.
  An array indexed by 1..18 also has the element 0, which is no declared type (0 is what
  a tag callback returns to skip a value); C fills an element of a static array that the
  initialiser does not name with zeros, so its expected wire type reads as 0.
\<close>

definition upb_type_info_entries :: "(upb_field_type_t \<times> upb_wire_type_t) list" where
  "upb_type_info_entries =
     [(0, 0),                          \<comment> \<open>no declared type: zero-filled\<close>
      (1, UPB_WIRE_TYPE_64BIT),        \<comment> \<open>double\<close>
      (2, UPB_WIRE_TYPE_32BIT),        \<comment> \<open>float\<close>
      (3, UPB_WIRE_TYPE_VARINT),       \<comment> \<open>int64\<close>
      (4, UPB_WIRE_TYPE_VARINT),       \<comment> \<open>uint64\<close>
      (5, UPB_WIRE_TYPE_VARINT),       \<comment> \<open>int32\<close>
      (6, UPB_WIRE_TYPE_64BIT),        \<comment> \<open>fixed64\<close>
      (7, UPB_WIRE_TYPE_32BIT),        \<comment> \<open>fixed32\<close>
      (8, UPB_WIRE_TYPE_VARINT),       \<comment> \<open>bool\<close>
      (9, UPB_WIRE_TYPE_DELIMITED),    \<comment> \<open>string\<close>
      (10, UPB_WIRE_TYPE_START_GROUP), \<comment> \<open>group\<close>
      (11, UPB_WIRE_TYPE_DELIMITED),   \<comment> \<open>message\<close>
      (12, UPB_WIRE_TYPE_DELIMITED),   \<comment> \<open>bytes\<close>
      (13, UPB_WIRE_TYPE_VARINT),      \<comment> \<open>uint32\<close>
      (14, UPB_WIRE_TYPE_VARINT),      \<comment> \<open>enum\<close>
      (15, UPB_WIRE_TYPE_32BIT),       \<comment> \<open>sfixed32\<close>
      (16, UPB_WIRE_TYPE_64BIT),       \<comment> \<open>sfixed64\<close>
      (17, UPB_WIRE_TYPE_VARINT),      \<comment> \<open>sint32\<close>
      (18, UPB_WIRE_TYPE_VARINT)]      \<comment> \<open>sint64\<close>"

definition upb_type_info :: upb_type_info_table where
  "upb_type_info ft =
     map_option (\<lambda>wt. \<lparr>expected_wire_type = wt\<rparr>) (map_of upb_type_info_entries ft)"

text \<open>An optional (not repeated, so never packed) field 1 of declared type int32.\<close>

definition optional_int32_field :: upb_fielddef where
  "optional_int32_field = \<lparr>number = 1, label = LABEL_OPTIONAL, ftype = 5\<rparr>"

section \<open>Parse stack frames and the parse state (upb_parse.h)\<close>





text \<open>
  Modelled from the spec: the status codes (\<^verbatim>\<open>upb_status_t\<close> is declared in upb.h, not
  among the sources). These are the failures the spec lists for the wire decoder.
\<close>

datatype upb_error =
  UNTERMINATED_VARINT | BAD_WIRE_TYPE | NESTING_OVERFLOW | SUBMSG_EXCEEDS_PARENT
  | GROUP_MISMATCH | PREMATURE_EOF







section \<open>The wire-type check\<close>

lemma upb_type_info_int32:
  "upb_type_info 5 = Some \<lparr>expected_wire_type = UPB_WIRE_TYPE_VARINT\<rparr>"
  by (simp add: upb_type_info_def upb_type_info_entries_def)

lemma upb_check_type_group:
  "upb_check_type tbl wt 10 = Some (wt = UPB_WIRE_TYPE_START_GROUP)"
  by (simp add: upb_check_type_def)

lemma upb_check_type_delimited:
  "ft \<noteq> 10 \<Longrightarrow> upb_check_type tbl UPB_WIRE_TYPE_DELIMITED ft = Some True"
  by (simp add: upb_check_type_def)

lemma upb_check_type_other:
  "ft \<noteq> 10 \<Longrightarrow> wt \<noteq> UPB_WIRE_TYPE_DELIMITED \<Longrightarrow> tbl ft = Some e \<Longrightarrow>
   upb_check_type tbl wt ft = Some (expected_wire_type e = wt)"
  by (simp add: upb_check_type_def)

text \<open>
  C1, as the spec states it, fails on the code. The spec accepts a mismatch between the
  tag's wire type and the field's expected wire type only for a packed (repeated
  primitive) field. The check never sees the label: for the optional int32 field
  above, a tag with wire type DELIMITED is accepted although the expected wire type is
  VARINT and the field is not repeated.
\<close>

theorem upb_check_type_packed_only_counterexample:
  "upb_check_type upb_type_info UPB_WIRE_TYPE_DELIMITED (ftype optional_int32_field) = Some True
   \<and> upb_type_info (ftype optional_int32_field) = Some \<lparr>expected_wire_type = UPB_WIRE_TYPE_VARINT\<rparr>
   \<and> UPB_WIRE_TYPE_VARINT \<noteq> UPB_WIRE_TYPE_DELIMITED
   \<and> label optional_int32_field \<noteq> LABEL_REPEATED"
  by (simp add: upb_check_type_def optional_int32_field_def upb_type_info_int32
      upb_wire_type_defs)

text \<open>
  C1, amended to what the code does. For a field \<open>f\<close> whose declared type has the table
  entry \<open>e\<close>, and whatever the label of \<open>f\<close> is:
  \<^item> if the declared type is group, the check accepts exactly the wire type START_GROUP;
  \<^item> otherwise a wire type that differs from the expected one is accepted exactly when
    it is DELIMITED (so exactly when the expected wire type is not DELIMITED itself),
    and a wire type equal to the expected one is always accepted;
  \<^item> the verdict is the same for every label the field may have.
\<close>

theorem upb_check_type_accepts:
  assumes "tbl (ftype f) = Some e"
  shows "(ftype f = TYPE_GROUP \<longrightarrow>
            upb_check_type tbl wt (ftype f) = Some (wt = UPB_WIRE_TYPE_START_GROUP))
       \<and> (ftype f \<noteq> TYPE_GROUP \<longrightarrow>
            ((upb_check_type tbl wt (ftype f) = Some True \<and> expected_wire_type e \<noteq> wt)
               = (wt = UPB_WIRE_TYPE_DELIMITED \<and> expected_wire_type e \<noteq> UPB_WIRE_TYPE_DELIMITED))
          \<and> (expected_wire_type e = wt \<longrightarrow> upb_check_type tbl wt (ftype f) = Some True))
       \<and> upb_check_type tbl wt (ftype (f\<lparr>label := l\<rparr>)) = upb_check_type tbl wt (ftype f)"
  using assms by (auto simp: upb_check_type_def TYPE_GROUP_def)

theorem upb_check_type_accepts_witness:
  "upb_type_info (ftype optional_int32_field) = Some \<lparr>expected_wire_type = UPB_WIRE_TYPE_VARINT\<rparr>
   \<and> ftype optional_int32_field \<noteq> TYPE_GROUP
   \<and> upb_check_type upb_type_info UPB_WIRE_TYPE_DELIMITED (ftype optional_int32_field) = Some True
   \<and> upb_check_type upb_type_info UPB_WIRE_TYPE_VARINT (ftype optional_int32_field) = Some True
   \<and> upb_check_type upb_type_info UPB_WIRE_TYPE_32BIT (ftype optional_int32_field) = Some False"
proof -
  have e: "upb_type_info (ftype optional_int32_field) = Some \<lparr>expected_wire_type = UPB_WIRE_TYPE_VARINT\<rparr>"
    by (simp add: optional_int32_field_def upb_type_info_int32)
  have g: "ftype optional_int32_field \<noteq> TYPE_GROUP"
    by (simp add: optional_int32_field_def TYPE_GROUP_def)
  from upb_check_type_accepts [of upb_type_info optional_int32_field _ UPB_WIRE_TYPE_DELIMITED LABEL_REPEATED, OF e] g
  have d: "upb_check_type upb_type_info UPB_WIRE_TYPE_DELIMITED (ftype optional_int32_field) = Some True"
    by (simp add: upb_wire_type_defs)
  from upb_check_type_accepts [of upb_type_info optional_int32_field _ UPB_WIRE_TYPE_VARINT LABEL_REPEATED, OF e] g
  have v: "upb_check_type upb_type_info UPB_WIRE_TYPE_VARINT (ftype optional_int32_field) = Some True"
    by simp
  have w: "upb_check_type upb_type_info UPB_WIRE_TYPE_32BIT (ftype optional_int32_field) = Some False"
    by (simp add: upb_check_type_def optional_int32_field_def upb_type_info_int32
        upb_wire_type_defs)
  from e g d v w show ?thesis by simp
qed

section \<open>Group and submessage frames\<close>






end
